theory Spec2Isabelle
  imports Main
begin

section \<open>Exceptions\<close>

text \<open>
  The two exceptions that the functions of \<^verbatim>\<open>halMessage.py\<close> raise themselves on inputs
  of the modelled types: Python's \<^verbatim>\<open>AttributeError\<close> (reading \<^verbatim>\<open>module_name\<close> from an
  object that has no such attribute, \<^verbatim>\<open>None\<close> included) and
  \<^verbatim>\<open>halExceptions.HalException\<close>, which carries its message text. A finalizer is code of
  the caller and may raise anything; \<open>OtherException\<close> stands for an exception of any
  other class, with the name of the class. A function that returns nothing to its caller
  when it raises has the result type \<open>pyerror + 'a\<close>, with \<open>Inl\<close> for the exception.
\<close>

datatype pyerror = AttributeError | HalException string | OtherException string

section \<open>The registry of message types\<close>

text \<open>
  \<^verbatim>\<open>valid_messages\<close> is a Python dictionary from type names to \<^verbatim>\<open>True\<close>. A dictionary
  keeps its keys in insertion order and holds each key once, so it is modelled as an
  association list; \<open>dict_contains\<close> is Python's \<^verbatim>\<open>name in d\<close>, \<open>dict_setitem\<close> is
  \<^verbatim>\<open>d[name] = value\<close>: the value of a key that is present is replaced where it stands,
  a new key is added at the end.
\<close>

type_synonym registry = "(string \<times> bool) list"

definition dict_keys :: "('k \<times> 'v) list \<Rightarrow> 'k list" where
  "dict_keys d = map fst d"

definition dict_contains :: "'k \<Rightarrow> ('k \<times> 'v) list \<Rightarrow> bool" where
  "dict_contains k d = (k \<in> set (dict_keys d))"

fun dict_setitem :: "'k \<Rightarrow> 'v \<Rightarrow> ('k \<times> 'v) list \<Rightarrow> ('k \<times> 'v) list" where
  "dict_setitem k v [] = [(k, v)]"
| "dict_setitem k v ((k', v') # d) =
     (if k' = k then (k, v) # d else (k', v') # dict_setitem k v d)"

definition valid_messages :: registry where
  "valid_messages =
    [(''add to ui'', True),
     (''close event'', True),
     (''configure1'', True),
     (''configure2'', True),
     (''current parameters'', True),
     (''module'', True),
     (''new directory'', True),
     (''new parameters file'', True),
     (''new shutters file'', True),
     (''start'', True),
     (''sync'', True)]"

text \<open>
  \<^verbatim>\<open>addMessage(name, check_exists = True)\<close>. The global dictionary is passed in and the
  updated one is returned; when the exception is raised the dictionary has not been
  touched. The specification calls this function \<^verbatim>\<open>register(name, failIfExists)\<close> and
  the exception \<^verbatim>\<open>DuplicateMessageType\<close>; in the code it is a \<^verbatim>\<open>HalException\<close> whose
  text is "Message ", the name, " already exists!".
\<close>

definition addMessage :: "string \<Rightarrow> bool \<Rightarrow> registry \<Rightarrow> pyerror + registry" where
  "addMessage name check_exists vm =
     (if check_exists \<and> dict_contains name vm
      then Inl (HalException (''Message '' @ name @ '' already exists!''))
      else Inr (dict_setitem name True vm))"

text \<open>The call with the second argument left out: \<^verbatim>\<open>check_exists\<close> defaults to \<^verbatim>\<open>True\<close>.\<close>

definition addMessage_default :: "string \<Rightarrow> registry \<Rightarrow> pyerror + registry" where
  "addMessage_default name vm = addMessage name True vm"

text \<open>
  A process makes any number of registration calls, one after the other. A call that
  raises leaves the dictionary as it was, and a caller that catches the exception goes on
  with the next call; \<open>register_all\<close> is the dictionary after the whole sequence.
\<close>

definition after_call :: "registry \<Rightarrow> string \<times> bool \<Rightarrow> registry" where
  "after_call vm c = (case addMessage (fst c) (snd c) vm of Inl e \<Rightarrow> vm | Inr vm' \<Rightarrow> vm')"

fun register_all :: "registry \<Rightarrow> (string \<times> bool) list \<Rightarrow> registry" where
  "register_all vm [] = vm"
| "register_all vm (c # cs) = register_all (after_call vm c) cs"

section \<open>Module references\<close>

text \<open>
  The \<^verbatim>\<open>source\<close> of a message is a reference to a \<^verbatim>\<open>HalModule\<close> object, or \<^verbatim>\<open>None\<close>
  (the default of the parameter). The code reads one attribute of it,
  \<^verbatim>\<open>module_name\<close>, a string; an object need not have that attribute. The read
  \<^verbatim>\<open>source.module_name\<close>, here \<open>module_name_attr\<close>, raises \<^verbatim>\<open>AttributeError\<close> on
  \<^verbatim>\<open>None\<close> and on an object without the attribute.
\<close>

datatype pysource = PyNone | PyObject "string option"

fun module_name_attr :: "pysource \<Rightarrow> pyerror + string" where
  "module_name_attr PyNone = Inl AttributeError"
| "module_name_attr (PyObject None) = Inl AttributeError"
| "module_name_attr (PyObject (Some n)) = Inr n"

section \<open>Effects outside the message\<close>

text \<open>
  A message acts on the rest of the program in two ways: it passes a line of text to
  \<^verbatim>\<open>hdebug.logText\<close>, and it calls the \<^verbatim>\<open>finalizer\<close> it was given. Both are calls into
  code outside \<^verbatim>\<open>halMessage.py\<close>; the model records each call, in the order they are
  made, in a trace. \<open>LogText t\<close> is the call \<^verbatim>\<open>hdebug.logText(t)\<close>; \<open>Invoke f n\<close> is a
  call of the function \<open>f\<close> with \<open>n\<close> arguments. Callbacks are values of an arbitrary
  type \<open>'f\<close>; what the body of a callback does when it runs is described with
  \<^verbatim>\<open>finalize\<close> below.
\<close>

datatype 'f effect = LogText string | Invoke 'f nat

type_synonym 'f world = "'f effect list"

text \<open>
  Modelled from the spec: \<^verbatim>\<open>hdebug.logText\<close> belongs to the module
  \<^verbatim>\<open>storm_control.sc_library.hdebug\<close>, which is not among the sources at hand. It is
  the logging collaborator of the specification, which receives the event of a creation
  or a destruction; the model appends to the trace the text it is passed.
\<close>

definition hdebug_logText :: "string \<Rightarrow> 'f world \<Rightarrow> 'f world" where
  "hdebug_logText a_string w = w @ [LogText a_string]"

definition invoke :: "'f \<Rightarrow> 'f world \<Rightarrow> 'f world" where
  "invoke f w = w @ [Invoke f 0]"

section \<open>Strings\<close>

text \<open>
  \<open>str_join sep xs\<close> is Python's \<^verbatim>\<open>sep.join(xs)\<close> on a list of strings and \<open>str_nat n\<close>
  is \<^verbatim>\<open>str(n)\<close> for a non-negative integer, its decimal digits. The identity
  \<^verbatim>\<open>id(self)\<close> of an object is a non-negative integer.
\<close>

fun str_join :: "string \<Rightarrow> string list \<Rightarrow> string" where
  "str_join sep [] = []"
| "str_join sep [x] = x"
| "str_join sep (x # y # ys) = x @ sep @ str_join sep (y # ys)"

definition digit_char :: "nat \<Rightarrow> char" where
  "digit_char d = ''0123456789'' ! d"

fun str_nat :: "nat \<Rightarrow> string" where
  "str_nat n =
     (if n < 10 then [digit_char n] else str_nat (n div 10) @ [digit_char (n mod 10)])"

declare str_nat.simps [simp del]

section \<open>Keyword arguments\<close>

text \<open>
  A parameter with a default is an \<open>option\<close>: \<open>None\<close> when the caller leaves it out,
  \<open>Some v\<close> when the caller passes \<open>v\<close>.
\<close>

definition arg_or :: "'a \<Rightarrow> 'a option \<Rightarrow> 'a" where
  "arg_or d a = (case a of None \<Rightarrow> d | Some v \<Rightarrow> v)"

section \<open>Messages\<close>

text \<open>
  \<^verbatim>\<open>HalMessageBase\<close> and its subclass \<^verbatim>\<open>HalMessage\<close>, as a record and its extension.
  \<open>ident\<close> is the identity \<^verbatim>\<open>id(self)\<close> that the runtime gives the object when it is
  created. \<open>data\<close> and \<open>finalizer\<close> are options, with \<open>None\<close> for Python's \<^verbatim>\<open>None\<close>.
  The entries of \<open>m_errors\<close> and \<open>responses\<close> are of arbitrary types, as the code
  appends whatever it is given.
\<close>

record HalMessageBase =
  ident :: nat
  m_type :: string
  source :: pysource

record ('d, 'f, 'e, 'r) HalMessage = HalMessageBase +
  data :: "'d option"
  finalizer :: "'f option"
  level :: int
  m_errors :: "'e list"
  responses :: "'r list"
  sync :: bool
  ref_count :: int

text \<open>
  The keyword arguments of \<^verbatim>\<open>HalMessage(...)\<close>: \<^verbatim>\<open>m_type\<close> and \<^verbatim>\<open>source\<close> are those of
  \<^verbatim>\<open>HalMessageBase.__init__\<close>, reached through \<^verbatim>\<open>**kwds\<close>. For \<open>kw_data\<close> and
  \<open>kw_finalizer\<close> the outer option says whether the argument was passed and the inner
  one whether the value passed was \<^verbatim>\<open>None\<close>.
\<close>

record ('d, 'f) HalMessage_kwds =
  kw_m_type :: "string option"
  kw_source :: "pysource option"
  kw_data :: "'d option option"
  kw_sync :: "bool option"
  kw_level :: "int option"
  kw_finalizer :: "'f option option"

definition HalMessageBase_init :: "nat \<Rightarrow> string option \<Rightarrow> pysource option \<Rightarrow> HalMessageBase" where
  "HalMessageBase_init oid a_m_type a_source =
     \<lparr>ident = oid, m_type = arg_or [] a_m_type, source = arg_or PyNone a_source\<rparr>"

definition getSource :: "'z HalMessageBase_scheme \<Rightarrow> pysource" where
  "getSource self = source self"

definition getSourceName :: "'z HalMessageBase_scheme \<Rightarrow> pyerror + string" where
  "getSourceName self = module_name_attr (source self)"

definition getType :: "'z HalMessageBase_scheme \<Rightarrow> string" where
  "getType self = m_type self"

text \<open>
  \<^verbatim>\<open>logEvent\<close> builds the list \<^verbatim>\<open>[event_name, str(id(self)), self.source.module_name,
  self.m_type]\<close> from left to right, so the attribute read may raise before anything is
  logged; then it joins the list with commas and passes the line to \<^verbatim>\<open>hdebug.logText\<close>.
\<close>

definition logEvent ::
  "('d, 'f, 'e, 'r) HalMessage \<Rightarrow> string \<Rightarrow> 'f world \<Rightarrow> pyerror + 'f world" where
  "logEvent self event_name w =
     (case module_name_attr (source self) of
        Inl err \<Rightarrow> Inl err
      | Inr name \<Rightarrow>
          Inr (hdebug_logText
                 (str_join '','' [event_name, str_nat (ident self), name, m_type self]) w))"

text \<open>
  \<^verbatim>\<open>HalMessage.__init__\<close>. \<open>oid\<close> is the identity of the object being initialised.
  The result is the new object and the trace after the call, or the exception raised
  by the creation log, in which case no object is returned to the caller and nothing has
  been logged.
\<close>

definition HalMessage_init ::
  "nat \<Rightarrow> ('d, 'f) HalMessage_kwds \<Rightarrow> 'f world
     \<Rightarrow> pyerror + (('d, 'f, 'e, 'r) HalMessage \<times> 'f world)" where
  "HalMessage_init oid kwds w =
     (let base = HalMessageBase_init oid (kw_m_type kwds) (kw_source kwds);
          self = \<lparr>ident = ident base, m_type = m_type base, source = source base,
                  data = arg_or None (kw_data kwds),
                  finalizer = arg_or None (kw_finalizer kwds),
                  level = arg_or 1 (kw_level kwds),
                  m_errors = [],
                  responses = [],
                  sync = arg_or False (kw_sync kwds),
                  ref_count = 0\<rparr>
      in if level self = 1
         then (case logEvent self ''created'' w of
                 Inl err \<Rightarrow> Inl err
               | Inr w' \<Rightarrow> Inr (self, w'))
         else Inr (self, w))"

definition addError :: "'e \<Rightarrow> ('d, 'f, 'e, 'r) HalMessage \<Rightarrow> ('d, 'f, 'e, 'r) HalMessage" where
  "addError hal_message_error self = self\<lparr>m_errors := m_errors self @ [hal_message_error]\<rparr>"

definition addResponse :: "'r \<Rightarrow> ('d, 'f, 'e, 'r) HalMessage \<Rightarrow> ('d, 'f, 'e, 'r) HalMessage" where
  "addResponse hal_message_response self =
     self\<lparr>responses := responses self @ [hal_message_response]\<rparr>"

text \<open>
  The finalizer is a function of the caller, and \<^verbatim>\<open>self.finalizer()\<close> runs its body
  inside \<^verbatim>\<open>finalize\<close>. The body can hold a reference to the message (a closure such
  as \<^verbatim>\<open>lambda: m.addError(e)\<close>) and change it, and it can raise. A \<open>caller_code\<close>
  gives, for each callback and each message it is run on, the exception the body raises
  (\<open>None\<close> when it returns) and the message as the body leaves it.
\<close>

type_synonym ('d, 'f, 'e, 'r) caller_code =
  "'f \<Rightarrow> ('d, 'f, 'e, 'r) HalMessage \<Rightarrow> pyerror option \<times> ('d, 'f, 'e, 'r) HalMessage"

text \<open>
  \<^verbatim>\<open>finalize\<close>: the destruction log when the level is 1, then the call of the finalizer
  when there is one. The result is the exception that leaves \<^verbatim>\<open>finalize\<close> (\<open>None\<close> when
  it returns), the object after the call and the trace after the call. An exception
  comes either from the log, before any effect, or from the body of the finalizer, after
  the call has been made and with what the body did to the message in place.
\<close>

definition finalize ::
  "('d, 'f, 'e, 'r) caller_code \<Rightarrow> ('d, 'f, 'e, 'r) HalMessage \<Rightarrow> 'f world
     \<Rightarrow> pyerror option \<times> ('d, 'f, 'e, 'r) HalMessage \<times> 'f world" where
  "finalize code self w =
     (case (if level self = 1 then logEvent self ''destroyed'' w else Inr w) of
        Inl err \<Rightarrow> (Some err, self, w)
      | Inr w1 \<Rightarrow>
          (case finalizer self of
             None \<Rightarrow> (None, self, w1)
           | Some f \<Rightarrow>
               (case code f self of
                  (raised, self') \<Rightarrow> (raised, self', invoke f w1))))"

definition getData :: "('d, 'f, 'e, 'r) HalMessage \<Rightarrow> 'd option" where
  "getData self = data self"

definition getErrors :: "('d, 'f, 'e, 'r) HalMessage \<Rightarrow> 'e list" where
  "getErrors self = m_errors self"

definition getResponses :: "('d, 'f, 'e, 'r) HalMessage \<Rightarrow> 'r list" where
  "getResponses self = responses self"

definition hasErrors :: "('d, 'f, 'e, 'r) HalMessage \<Rightarrow> bool" where
  "hasErrors self = (length (m_errors self) > 0)"

definition hasResponses :: "('d, 'f, 'e, 'r) HalMessage \<Rightarrow> bool" where
  "hasResponses self = (length (responses self) > 0)"

text \<open>
  The two methods that change a message after its construction, as data, so that the
  messages a program can hold are those built by the constructor and changed by a
  sequence of such calls.
\<close>

datatype ('e, 'r) mutation = AddError 'e | AddResponse 'r

fun mutate :: "('d, 'f, 'e, 'r) HalMessage \<Rightarrow> ('e, 'r) mutation \<Rightarrow> ('d, 'f, 'e, 'r) HalMessage" where
  "mutate self (AddError e) = addError e self"
| "mutate self (AddResponse r) = addResponse r self"

definition mutate_all ::
  "('d, 'f, 'e, 'r) HalMessage \<Rightarrow> ('e, 'r) mutation list \<Rightarrow> ('d, 'f, 'e, 'r) HalMessage" where
  "mutate_all self ms = foldl mutate self ms"

text \<open>
  Two pieces of caller code, for the examples: finalizers whose body does nothing to the
  message and returns (\<^verbatim>\<open>lambda: None\<close>), and finalizers whose body is
  \<^verbatim>\<open>m.addError(e)\<close> on the message \<^verbatim>\<open>m\<close> they belong to.
\<close>

definition quiet_finalizers :: "('d, 'f, 'e, 'r) caller_code" where
  "quiet_finalizers f self = (None, self)"

definition error_adding_finalizers :: "'e \<Rightarrow> ('d, 'f, 'e, 'r) caller_code" where
  "error_adding_finalizers e f self = (None, addError e self)"

section \<open>Errors and responses\<close>

text \<open>
  \<^verbatim>\<open>HalMessageError\<close> and \<^verbatim>\<open>HalMessageResponse\<close>. Their fields \<^verbatim>\<open>source\<close>, \<^verbatim>\<open>message\<close>
  and \<^verbatim>\<open>data\<close> carry a prefix here, the names being taken by the message. The
  exception and the data are options, with \<open>None\<close> for Python's \<^verbatim>\<open>None\<close>.
\<close>

record 'x HalMessageError =
  err_message :: string
  m_exception :: "'x option"
  err_source :: string

definition HalMessageError_init ::
  "string option \<Rightarrow> string option \<Rightarrow> 'x option option \<Rightarrow> 'x HalMessageError" where
  "HalMessageError_init a_source a_message a_m_exception =
     \<lparr>err_message = arg_or [] a_message,
      m_exception = arg_or None a_m_exception,
      err_source = arg_or [] a_source\<rparr>"

definition getException :: "'x HalMessageError \<Rightarrow> 'x option" where
  "getException self = m_exception self"

definition hasException :: "'x HalMessageError \<Rightarrow> bool" where
  "hasException self = (m_exception self \<noteq> None)"

record 'd HalMessageResponse =
  resp_data :: "'d option"
  resp_source :: string

definition HalMessageResponse_init ::
  "string option \<Rightarrow> 'd option option \<Rightarrow> 'd HalMessageResponse" where
  "HalMessageResponse_init a_source a_data =
     \<lparr>resp_data = arg_or None a_data, resp_source = arg_or [] a_source\<rparr>"

definition response_getData :: "'d HalMessageResponse \<Rightarrow> 'd option" where
  "response_getData self = resp_data self"

section \<open>The synchronisation message\<close>

text \<open>
  \<^verbatim>\<open>SyncMessage.__init__(source)\<close> calls \<^verbatim>\<open>HalMessage.__init__\<close> with the three keyword
  arguments \<^verbatim>\<open>m_type\<close>, \<^verbatim>\<open>source\<close> and \<^verbatim>\<open>sync\<close>, and nothing else.
\<close>

definition SyncMessage_kwds :: "pysource \<Rightarrow> ('d, 'f) HalMessage_kwds" where
  "SyncMessage_kwds a_source =
     \<lparr>kw_m_type = Some ''sync'', kw_source = Some a_source, kw_data = None,
      kw_sync = Some True, kw_level = None, kw_finalizer = None\<rparr>"

definition SyncMessage_init ::
  "nat \<Rightarrow> pysource \<Rightarrow> 'f world \<Rightarrow> pyerror + (('d, 'f, 'e, 'r) HalMessage \<times> 'f world)" where
  "SyncMessage_init oid a_source w = HalMessage_init oid (SyncMessage_kwds a_source) w"

section \<open>Properties of the registry\<close>

lemma dict_keys_setitem:
  "dict_keys (dict_setitem k v d) =
     (if dict_contains k d then dict_keys d else dict_keys d @ [k])"
  by (induction d) (force simp: dict_keys_def dict_contains_def)+

lemma count_list_distinct:
  "distinct ks \<Longrightarrow> k \<in> set ks \<Longrightarrow> count_list ks k = 1"
  by (induction ks) auto

lemma count_list_absent: "k \<notin> set ks \<Longrightarrow> count_list ks k = 0"
  by (induction ks) auto

lemma dict_keys_after_call:
  "\<exists>ks. dict_keys (after_call vm c) = dict_keys vm @ ks"
  by (auto simp: after_call_def addMessage_def dict_keys_setitem)

lemma dict_keys_register_all:
  "\<exists>ks. dict_keys (register_all vm cs) = dict_keys vm @ ks"
proof (induction cs arbitrary: vm)
  case Nil
  show ?case by simp
next
  case (Cons c cs)
  obtain ks1 where k1: "dict_keys (after_call vm c) = dict_keys vm @ ks1"
    using dict_keys_after_call by blast
  obtain ks2 where
    k2: "dict_keys (register_all (after_call vm c) cs) = dict_keys (after_call vm c) @ ks2"
    using Cons.IH by blast
  have "dict_keys (register_all vm (c # cs)) = dict_keys vm @ (ks1 @ ks2)"
    using k1 k2 by simp
  then show ?case by blast
qed

text \<open>
  C2. Registering a name that is already in the registry with the existence check on
  raises the duplicate error (the \<^verbatim>\<open>HalException\<close> "Message <name> already exists!");
  with the check off the call succeeds and the keys of the registry are the same as
  before, the name among them once. Registering a name that is not yet in the registry
  succeeds whatever the flag and adds the name (at the end, once), keeping every other
  key. The registry is a dictionary: its keys are distinct.
\<close>

theorem addMessage_duplicate_policy:
  assumes "distinct (dict_keys vm)"
  shows "(dict_contains name vm \<longrightarrow>
            addMessage name True vm
              = Inl (HalException (''Message '' @ name @ '' already exists!''))
          \<and> addMessage_default name vm
              = Inl (HalException (''Message '' @ name @ '' already exists!''))
          \<and> (\<exists>vm'. addMessage name False vm = Inr vm'
                \<and> dict_keys vm' = dict_keys vm
                \<and> dict_contains name vm'
                \<and> count_list (dict_keys vm') name = 1))
       \<and> (\<not> dict_contains name vm \<longrightarrow>
            (\<exists>vm'. addMessage name check_exists vm = Inr vm'
                \<and> dict_keys vm' = dict_keys vm @ [name]
                \<and> dict_contains name vm'
                \<and> count_list (dict_keys vm') name = 1))"
proof (intro conjI impI)
  assume "dict_contains name vm"
  then show "addMessage name True vm
      = Inl (HalException (''Message '' @ name @ '' already exists!''))"
    by (simp add: addMessage_def)
next
  assume "dict_contains name vm"
  then show "addMessage_default name vm
      = Inl (HalException (''Message '' @ name @ '' already exists!''))"
    by (simp add: addMessage_default_def addMessage_def)
next
  assume present: "dict_contains name vm"
  have "addMessage name False vm = Inr (dict_setitem name True vm)"
    by (simp add: addMessage_def)
  moreover have "dict_keys (dict_setitem name True vm) = dict_keys vm"
    using present by (simp add: dict_keys_setitem)
  moreover have "dict_contains name (dict_setitem name True vm)"
    using present by (simp add: dict_contains_def dict_keys_setitem)
  moreover have "count_list (dict_keys (dict_setitem name True vm)) name = 1"
    using present assms
    by (simp add: dict_keys_setitem dict_contains_def count_list_distinct)
  ultimately show "\<exists>vm'. addMessage name False vm = Inr vm'
      \<and> dict_keys vm' = dict_keys vm
      \<and> dict_contains name vm'
      \<and> count_list (dict_keys vm') name = 1"
    by blast
next
  assume absent: "\<not> dict_contains name vm"
  have "addMessage name check_exists vm = Inr (dict_setitem name True vm)"
    using absent by (simp add: addMessage_def)
  moreover have "dict_keys (dict_setitem name True vm) = dict_keys vm @ [name]"
    using absent by (simp add: dict_keys_setitem)
  moreover have "dict_contains name (dict_setitem name True vm)"
    using absent by (simp add: dict_contains_def dict_keys_setitem)
  moreover have "count_list (dict_keys (dict_setitem name True vm)) name = 1"
    using absent
    by (simp add: dict_keys_setitem dict_contains_def count_list_absent)
  ultimately show "\<exists>vm'. addMessage name check_exists vm = Inr vm'
      \<and> dict_keys vm' = dict_keys vm @ [name]
      \<and> dict_contains name vm'
      \<and> count_list (dict_keys vm') name = 1"
    by blast
qed

theorem addMessage_duplicate_policy_witness:
  "distinct (dict_keys valid_messages)
   \<and> dict_contains ''sync'' valid_messages
   \<and> addMessage ''sync'' True valid_messages
       = Inl (HalException ''Message sync already exists!'')
   \<and> addMessage_default ''sync'' valid_messages
       = Inl (HalException ''Message sync already exists!'')
   \<and> (\<exists>vm'. addMessage ''sync'' False valid_messages = Inr vm'
          \<and> dict_keys vm' = dict_keys valid_messages
          \<and> dict_contains ''sync'' vm'
          \<and> count_list (dict_keys vm') ''sync'' = 1)
   \<and> \<not> dict_contains ''feed'' valid_messages
   \<and> (\<exists>vm'. addMessage ''feed'' True valid_messages = Inr vm'
          \<and> dict_keys vm' = dict_keys valid_messages @ [''feed'']
          \<and> dict_contains ''feed'' vm'
          \<and> count_list (dict_keys vm') ''feed'' = 1)"
proof -
  have d: "distinct (dict_keys valid_messages)"
    by (simp add: valid_messages_def dict_keys_def)
  have p: "dict_contains ''sync'' valid_messages"
    by (simp add: valid_messages_def dict_keys_def dict_contains_def)
  have a: "\<not> dict_contains ''feed'' valid_messages"
    by (simp add: valid_messages_def dict_keys_def dict_contains_def)
  have line: "''Message '' @ ''sync'' @ '' already exists!'' = ''Message sync already exists!''"
    by simp
  show ?thesis
    using d p a
      addMessage_duplicate_policy [OF d, of "''sync''" True]
      addMessage_duplicate_policy [OF d, of "''feed''" True]
    unfolding line by blast
qed

text \<open>
  C8. The registry only grows. After any sequence of registration calls, with the
  existence check on or off, failed or not, the keys of the registry are the keys it had
  before followed by the new ones: every name that was registered is still registered,
  the built-in names of \<open>valid_messages\<close> among them. A single successful call keeps
  every name as well. The module has no operation that removes a key.
\<close>

theorem registry_only_grows:
  "(\<exists>ks. dict_keys (register_all vm cs) = dict_keys vm @ ks)
   \<and> (dict_contains n vm \<longrightarrow> dict_contains n (register_all vm cs))
   \<and> (dict_contains n valid_messages \<longrightarrow> dict_contains n (register_all valid_messages cs))
   \<and> (\<forall>vm'. addMessage name check_exists vm = Inr vm' \<longrightarrow> dict_contains n vm
          \<longrightarrow> dict_contains n vm')"
proof (intro conjI impI allI)
  show "\<exists>ks. dict_keys (register_all vm cs) = dict_keys vm @ ks"
    by (rule dict_keys_register_all)
next
  assume "dict_contains n vm"
  then show "dict_contains n (register_all vm cs)"
    using dict_keys_register_all [of vm cs] by (auto simp: dict_contains_def)
next
  assume "dict_contains n valid_messages"
  then show "dict_contains n (register_all valid_messages cs)"
    using dict_keys_register_all [of valid_messages cs] by (auto simp: dict_contains_def)
next
  fix vm'
  assume "addMessage name check_exists vm = Inr vm'" and "dict_contains n vm"
  then show "dict_contains n vm'"
    by (auto simp: addMessage_def dict_contains_def dict_keys_setitem split: if_splits)
qed

theorem registry_only_grows_witness:
  "dict_contains ''start'' valid_messages
   \<and> dict_contains ''start''
        (register_all valid_messages
           [(''sync'', True), (''feed'', True), (''feed'', False), (''start'', False)])
   \<and> addMessage ''feed'' True valid_messages = Inr (valid_messages @ [(''feed'', True)])
   \<and> dict_contains ''start'' (valid_messages @ [(''feed'', True)])"
proof -
  have p: "dict_contains ''start'' valid_messages"
    by (simp add: valid_messages_def dict_keys_def dict_contains_def)
  have r: "addMessage ''feed'' True valid_messages = Inr (valid_messages @ [(''feed'', True)])"
    by (simp add: addMessage_def valid_messages_def dict_keys_def dict_contains_def)
  show ?thesis
    using p r
      registry_only_grows [of valid_messages
         "[(''sync'', True), (''feed'', True), (''feed'', False), (''start'', False)]"
         "''start''" "''feed''" True]
    by blast
qed

section \<open>Properties of messages\<close>

lemma pysource_cases:
  "(\<exists>n. s = PyObject (Some n)) \<or> s = PyNone \<or> s = PyObject None"
proof (cases s)
  case PyNone
  then show ?thesis by simp
next
  case (PyObject a)
  then show ?thesis by (cases a) simp_all
qed

lemma logEvent_named:
  "source m = PyObject (Some n) \<Longrightarrow>
   logEvent m ev w =
     Inr (w @ [LogText (ev @ '','' @ str_nat (ident m) @ '','' @ n @ '','' @ m_type m)])"
  by (simp add: logEvent_def hdebug_logText_def)

lemma logEvent_unnamed:
  "source m = PyNone \<or> source m = PyObject None \<Longrightarrow> logEvent m ev w = Inl AttributeError"
  by (auto simp: logEvent_def)

lemma mutate_keeps:
  "ident (mutate m c) = ident m \<and> m_type (mutate m c) = m_type m
   \<and> source (mutate m c) = source m \<and> data (mutate m c) = data m
   \<and> finalizer (mutate m c) = finalizer m \<and> level (mutate m c) = level m
   \<and> sync (mutate m c) = sync m \<and> ref_count (mutate m c) = ref_count m"
  by (cases c) (simp_all add: addError_def addResponse_def)

lemma mutate_all_keeps:
  "ident (mutate_all m cs) = ident m \<and> m_type (mutate_all m cs) = m_type m
   \<and> source (mutate_all m cs) = source m \<and> data (mutate_all m cs) = data m
   \<and> finalizer (mutate_all m cs) = finalizer m \<and> level (mutate_all m cs) = level m
   \<and> sync (mutate_all m cs) = sync m \<and> ref_count (mutate_all m cs) = ref_count m"
  unfolding mutate_all_def
proof (induction cs arbitrary: m)
  case Nil
  show ?case by simp
next
  case (Cons c cs)
  show ?case using Cons.IH [of "mutate m c"] mutate_keeps [of m c] by simp
qed

lemma HalMessage_init_unfold:
  "HalMessage_init oid kwds w =
     (let self = \<lparr>ident = oid,
                  m_type = (case kw_m_type kwds of None \<Rightarrow> [] | Some t \<Rightarrow> t),
                  source = (case kw_source kwds of None \<Rightarrow> PyNone | Some s \<Rightarrow> s),
                  data = (case kw_data kwds of None \<Rightarrow> None | Some d \<Rightarrow> d),
                  finalizer = (case kw_finalizer kwds of None \<Rightarrow> None | Some f \<Rightarrow> f),
                  level = (case kw_level kwds of None \<Rightarrow> 1 | Some l \<Rightarrow> l),
                  m_errors = [],
                  responses = [],
                  sync = (case kw_sync kwds of None \<Rightarrow> False | Some b \<Rightarrow> b),
                  ref_count = 0\<rparr>
      in if level self = 1
         then (case logEvent self ''created'' w of
                 Inl err \<Rightarrow> Inl err
               | Inr w' \<Rightarrow> Inr (self, w'))
         else Inr (self, w))"
  by (simp add: HalMessage_init_def HalMessageBase_init_def Let_def arg_or_def
        cong: sum.case_cong)


lemma built_fields:
  assumes "HalMessage_init oid kwds w0 = Inr (m0, w1)"
  shows "m0 = \<lparr>ident = oid,
               m_type = (case kw_m_type kwds of None \<Rightarrow> [] | Some t \<Rightarrow> t),
               source = (case kw_source kwds of None \<Rightarrow> PyNone | Some s \<Rightarrow> s),
               data = (case kw_data kwds of None \<Rightarrow> None | Some d \<Rightarrow> d),
               finalizer = (case kw_finalizer kwds of None \<Rightarrow> None | Some f \<Rightarrow> f),
               level = (case kw_level kwds of None \<Rightarrow> 1 | Some l \<Rightarrow> l),
               m_errors = [],
               responses = [],
               sync = (case kw_sync kwds of None \<Rightarrow> False | Some b \<Rightarrow> b),
               ref_count = 0\<rparr>"
  using assms unfolding HalMessage_init_unfold Let_def
  by (auto split: if_splits sum.splits)

lemma built_named:
  assumes built: "HalMessage_init oid kwds w0 = Inr (m0, w1)"
    and lvl: "level m0 = 1"
  shows "\<exists>n. source m0 = PyObject (Some n)"
proof (rule ccontr)
  assume "\<not> (\<exists>n. source m0 = PyObject (Some n))"
  then have nameless: "source m0 = PyNone \<or> source m0 = PyObject None"
    using pysource_cases [of "source m0"] by blast
  have "logEvent m0 ''created'' w0 = Inl AttributeError"
    using nameless by (rule logEvent_unnamed)
  moreover have "HalMessage_init oid kwds w0 =
      (case logEvent m0 ''created'' w0 of Inl err \<Rightarrow> Inl err | Inr w' \<Rightarrow> Inr (m0, w'))"
    using lvl unfolding built_fields [OF built] HalMessage_init_unfold Let_def by simp
  ultimately show False using built by simp
qed

lemma finalize_named:
  assumes "source m = PyObject (Some n)" and "level m = 1"
  shows "finalize code m w =
     (fst (case finalizer m of None \<Rightarrow> (None, m) | Some f \<Rightarrow> code f m),
      snd (case finalizer m of None \<Rightarrow> (None, m) | Some f \<Rightarrow> code f m),
      w @ [LogText (''destroyed,'' @ str_nat (ident m) @ '','' @ n @ '','' @ m_type m)]
        @ (case finalizer m of None \<Rightarrow> [] | Some f \<Rightarrow> [Invoke f 0]))"
  using assms
  by (simp add: finalize_def logEvent_named invoke_def split: option.split prod.split)

lemma finalize_quiet:
  assumes "level m \<noteq> 1"
  shows "finalize code m w =
     (fst (case finalizer m of None \<Rightarrow> (None, m) | Some f \<Rightarrow> code f m),
      snd (case finalizer m of None \<Rightarrow> (None, m) | Some f \<Rightarrow> code f m),
      w @ (case finalizer m of None \<Rightarrow> [] | Some f \<Rightarrow> [Invoke f 0]))"
  using assms by (simp add: finalize_def invoke_def split: option.split prod.split)

lemma built_finalizer:
  assumes "HalMessage_init oid kwds w0 = Inr (m0, w1)"
  shows "finalizer m0 = (case kw_finalizer kwds of Some (Some f) \<Rightarrow> Some f | _ \<Rightarrow> None)"
  unfolding built_fields [OF assms] by (simp split: option.split)

lemma str_nat_42: "str_nat 42 = ''42''"
  by (simp add: str_nat.simps digit_char_def)

text \<open>
  C4, as the code has it. The constructor takes a type and a source, and both may be
  left out: the type is then the empty string and the source is \<^verbatim>\<open>None\<close>. The other
  parameters default to no data, not synchronous, level 1 and no finalizer; the errors
  and the responses start empty and the reference count at 0. When the level is 1 the
  constructor reads the module name of the source for the "created" event: it returns
  the message and has logged that one line when the source has a module name, and raises
  \<^verbatim>\<open>AttributeError\<close>, with nothing logged, when it has none. When the level is not 1 it
  always returns the message and logs nothing.
\<close>

theorem HalMessage_init_contract:
  "HalMessage_init oid kwds w =
     (let self = \<lparr>ident = oid,
                  m_type = (case kw_m_type kwds of None \<Rightarrow> [] | Some t \<Rightarrow> t),
                  source = (case kw_source kwds of None \<Rightarrow> PyNone | Some s \<Rightarrow> s),
                  data = (case kw_data kwds of None \<Rightarrow> None | Some d \<Rightarrow> d),
                  finalizer = (case kw_finalizer kwds of None \<Rightarrow> None | Some f \<Rightarrow> f),
                  level = (case kw_level kwds of None \<Rightarrow> 1 | Some l \<Rightarrow> l),
                  m_errors = [],
                  responses = [],
                  sync = (case kw_sync kwds of None \<Rightarrow> False | Some b \<Rightarrow> b),
                  ref_count = 0\<rparr>
      in if level self = 1
         then (case source self of
                 PyObject (Some n) \<Rightarrow>
                   Inr (self, w @ [LogText (''created,'' @ str_nat oid @ '','' @ n
                                             @ '','' @ m_type self)])
               | _ \<Rightarrow> Inl AttributeError)
         else Inr (self, w))"
  unfolding HalMessage_init_unfold Let_def
  by (simp add: logEvent_def hdebug_logText_def split: pysource.split option.split)

theorem HalMessage_init_contract_witness:
  "HalMessage_init 42
     \<lparr>kw_m_type = Some ''start'', kw_source = Some (PyObject (Some ''hal'')),
      kw_data = None, kw_sync = None, kw_level = None, kw_finalizer = None\<rparr>
     ([] :: nat world) =
   Inr (\<lparr>ident = 42, m_type = ''start'', source = PyObject (Some ''hal''),
          data = (None :: nat option), finalizer = None, level = 1,
          m_errors = ([] :: nat list), responses = ([] :: nat list),
          sync = False, ref_count = 0\<rparr>,
        [LogText ''created,42,hal,start''])"
  using HalMessage_init_contract [of 42
     "\<lparr>kw_m_type = Some ''start'', kw_source = Some (PyObject (Some ''hal'')),
      kw_data = None, kw_sync = None, kw_level = None, kw_finalizer = None\<rparr>"
     "[] :: nat world"]
  by (simp add: str_nat_42)

text \<open>
  The claim as written asks for a type and a source. A call that passes neither, at
  level 2, returns a message: its type is the empty string and its source is \<^verbatim>\<open>None\<close>.
\<close>

theorem HalMessage_init_without_type_and_source:
  "HalMessage_init 7
     \<lparr>kw_m_type = None, kw_source = None, kw_data = None, kw_sync = None,
      kw_level = Some 2, kw_finalizer = None\<rparr>
     ([] :: nat world) =
   Inr (\<lparr>ident = 7, m_type = [], source = PyNone,
          data = (None :: nat option), finalizer = None, level = 2,
          m_errors = ([] :: nat list), responses = ([] :: nat list),
          sync = False, ref_count = 0\<rparr>,
        [])"
  by (simp add: HalMessage_init_def HalMessageBase_init_def arg_or_def)

text \<open>
  C5. For every source, \<^verbatim>\<open>SyncMessage(source)\<close> returns a message of type "sync" with
  the synchronous flag set, the source given, no data, no finalizer and the default
  level 1, with empty errors and responses. A source is a module reference, an object
  with a module name; being of level 1, the construction logs the "created" line with
  that name.
\<close>

theorem SyncMessage_init_fields:
  "SyncMessage_init oid (PyObject (Some n)) w =
     Inr (\<lparr>ident = oid, m_type = ''sync'', source = PyObject (Some n),
            data = None, finalizer = None, level = 1,
            m_errors = [], responses = [], sync = True, ref_count = 0\<rparr>,
          w @ [LogText (''created,'' @ str_nat oid @ '','' @ n @ '',sync'')])"
  unfolding SyncMessage_init_def HalMessage_init_unfold Let_def
  by (simp add: SyncMessage_kwds_def logEvent_def hdebug_logText_def)

text \<open>
  C9. When the level is left at its default, or passed as 1, the constructor raises
  \<^verbatim>\<open>AttributeError\<close> exactly when the source is left out, is \<^verbatim>\<open>None\<close>, or is an object
  without a module name, and it returns a message exactly when the source is an object
  with a module name. \<^verbatim>\<open>getSourceName\<close> behaves the same way on the source of the
  message it is called on.
\<close>

theorem module_name_precondition:
  assumes lvl: "kw_level kwds = None \<or> kw_level kwds = Some 1"
  shows "((HalMessage_init oid kwds w
             :: pyerror + (('d, 'f, 'e, 'r) HalMessage \<times> 'f world)) = Inl AttributeError
          \<longleftrightarrow> (kw_source kwds = None \<or> kw_source kwds = Some PyNone
               \<or> kw_source kwds = Some (PyObject None)))
       \<and> ((\<exists>m w'. (HalMessage_init oid kwds w
             :: pyerror + (('d, 'f, 'e, 'r) HalMessage \<times> 'f world)) = Inr (m, w'))
          \<longleftrightarrow> (\<exists>n. kw_source kwds = Some (PyObject (Some n))))
       \<and> (getSourceName x = Inl AttributeError
          \<longleftrightarrow> (source x = PyNone \<or> source x = PyObject None))
       \<and> ((\<exists>n. getSourceName x = Inr n) \<longleftrightarrow> (\<exists>n. source x = PyObject (Some n)))"
proof -
  let ?init = "HalMessage_init oid kwds w
                 :: pyerror + (('d, 'f, 'e, 'r) HalMessage \<times> 'f world)"
  let ?nameless = "kw_source kwds = None \<or> kw_source kwds = Some PyNone
                     \<or> kw_source kwds = Some (PyObject None)"
  have one: "(case kw_level kwds of None \<Rightarrow> 1 | Some l \<Rightarrow> l) = (1::int)"
    using lvl by auto
  have unnamed: "?init = Inl AttributeError" if "?nameless"
    unfolding HalMessage_init_unfold Let_def using one that
    by (auto simp: logEvent_def)
  have named: "\<exists>m w'. ?init = Inr (m, w')"
    if "kw_source kwds = Some (PyObject (Some n))" for n
    unfolding HalMessage_init_unfold Let_def using one that
    by (simp add: logEvent_def)
  have split: "(\<exists>n. kw_source kwds = Some (PyObject (Some n))) \<or> ?nameless"
  proof (cases "kw_source kwds")
    case None
    then show ?thesis by simp
  next
    case (Some s)
    then show ?thesis using pysource_cases [of s] by auto
  qed
  have init: "?init = Inl AttributeError \<longleftrightarrow> ?nameless"
  proof
    assume failed: "?init = Inl AttributeError"
    show "?nameless"
    proof (rule ccontr)
      assume "\<not> ?nameless"
      then obtain n where "kw_source kwds = Some (PyObject (Some n))"
        using split by blast
      then obtain m w' where "?init = Inr (m, w')"
        using named by blast
      then show False using failed by simp
    qed
  next
    assume "?nameless"
    then show "?init = Inl AttributeError" by (rule unnamed)
  qed
  have ok: "(\<exists>m w'. ?init = Inr (m, w'))
              \<longleftrightarrow> (\<exists>n. kw_source kwds = Some (PyObject (Some n)))"
  proof
    assume "\<exists>m w'. ?init = Inr (m, w')"
    then obtain m w' where good: "?init = Inr (m, w')" by blast
    show "\<exists>n. kw_source kwds = Some (PyObject (Some n))"
    proof (rule ccontr)
      assume "\<not> (\<exists>n. kw_source kwds = Some (PyObject (Some n)))"
      then have "?nameless" using split by blast
      then have "?init = Inl AttributeError" by (rule unnamed)
      then show False using good by simp
    qed
  next
    assume "\<exists>n. kw_source kwds = Some (PyObject (Some n))"
    then show "\<exists>m w'. ?init = Inr (m, w')" using named by blast
  qed
  have g1: "getSourceName x = Inl AttributeError
          \<longleftrightarrow> (source x = PyNone \<or> source x = PyObject None)"
    using pysource_cases [of "source x"] by (auto simp: getSourceName_def)
  have g2: "(\<exists>n. getSourceName x = Inr n) \<longleftrightarrow> (\<exists>n. source x = PyObject (Some n))"
    using pysource_cases [of "source x"] by (auto simp: getSourceName_def)
  show ?thesis
    by (intro conjI) (rule init, rule ok, rule g1, rule g2)
qed

theorem module_name_precondition_witness:
  "HalMessage_init 42
     \<lparr>kw_m_type = Some ''start'', kw_source = None,
      kw_data = None, kw_sync = None, kw_level = None, kw_finalizer = None\<rparr>
     ([] :: nat world) =
     (Inl AttributeError :: pyerror + ((nat, nat, nat, nat) HalMessage \<times> nat world))
   \<and> getSourceName \<lparr>ident = 7, m_type = ''start'', source = PyObject None\<rparr>
       = Inl AttributeError"
proof -
  let ?kwds = "\<lparr>kw_m_type = Some ''start'', kw_source = None,
      kw_data = None, kw_sync = None, kw_level = None, kw_finalizer = None\<rparr>
      :: (nat, nat) HalMessage_kwds"
  have lvl: "kw_level ?kwds = None \<or> kw_level ?kwds = Some 1"
    by simp
  have a: "HalMessage_init 42 ?kwds ([] :: nat world) =
      (Inl AttributeError :: pyerror + ((nat, nat, nat, nat) HalMessage \<times> nat world))"
    by (rule iffD2 [OF conjunct1 [OF module_name_precondition [OF lvl]]]) simp
  have b: "getSourceName \<lparr>ident = 7, m_type = ''start'', source = PyObject None\<rparr>
      = Inl AttributeError"
    by (rule iffD2 [OF conjunct1 [OF conjunct2
          [OF conjunct2 [OF module_name_precondition [OF lvl]]]]]) simp
  show ?thesis using a b by (rule conjI)
qed

text \<open>
  C1. For a message built by the constructor and changed afterwards by any calls of
  \<^verbatim>\<open>addError\<close> and \<^verbatim>\<open>addResponse\<close>, and whatever the bodies of the callbacks do, one call
  of \<^verbatim>\<open>finalize\<close> adds to the trace, in this order: the line of the "destroyed" event
  when the level is 1 and nothing otherwise; then one call, with no arguments, of the
  finalizer that was passed to the constructor, and nothing when none was passed (or
  \<^verbatim>\<open>None\<close> was). The body of that finalizer runs once, on the message as it is then:
  what it raises and what it leaves of the message is the outcome of \<^verbatim>\<open>finalize\<close>. With
  no finalizer \<^verbatim>\<open>finalize\<close> returns and the message is as it was.
\<close>

theorem finalize_log_then_callback:
  assumes built: "HalMessage_init oid kwds w0 = Inr (m0, w1)"
    and later: "m = mutate_all m0 cs"
  shows "\<exists>log_part call_part outcome m'.
           finalize code m w = (outcome, m', w @ log_part @ call_part)
         \<and> (if level m = 1
            then \<exists>n. source m = PyObject (Some n)
                   \<and> log_part = [LogText (''destroyed,'' @ str_nat (ident m) @ '','' @ n
                                            @ '','' @ m_type m)]
            else log_part = [])
         \<and> (case kw_finalizer kwds of
              Some (Some f) \<Rightarrow> call_part = [Invoke f 0] \<and> (outcome, m') = code f m
            | _ \<Rightarrow> call_part = [] \<and> outcome = None \<and> m' = m)"
proof -
  let ?call = "case finalizer m of None \<Rightarrow> [] | Some f \<Rightarrow> [Invoke f 0]"
  let ?res = "case finalizer m of None \<Rightarrow> (None, m) | Some f \<Rightarrow> code f m"
  have same: "level m = level m0" "source m = source m0" "finalizer m = finalizer m0"
    using mutate_all_keeps [of m0 cs] later by simp_all
  have call: "case kw_finalizer kwds of
                Some (Some f) \<Rightarrow> ?call = [Invoke f 0] \<and> (fst ?res, snd ?res) = code f m
              | _ \<Rightarrow> ?call = [] \<and> fst ?res = None \<and> snd ?res = m"
    unfolding same built_finalizer [OF built] by (simp split: option.split)
  show ?thesis
  proof (cases "level m = 1")
    case True
    then obtain n where n: "source m = PyObject (Some n)"
      using built_named [OF built] same by auto
    let ?log = "[LogText (''destroyed,'' @ str_nat (ident m) @ '','' @ n @ '','' @ m_type m)]"
    have "finalize code m w = (fst ?res, snd ?res, w @ ?log @ ?call)"
      using finalize_named [OF n True, of code w] by simp
    then show ?thesis using True n call
      by - (rule exI [of _ ?log], rule exI [of _ ?call],
            rule exI [of _ "fst ?res"], rule exI [of _ "snd ?res"], simp)
  next
    case False
    have "finalize code m w = (fst ?res, snd ?res, w @ [] @ ?call)"
      using finalize_quiet [OF False, of code w] by simp
    then show ?thesis using False call
      by - (rule exI [of _ "[]"], rule exI [of _ ?call],
            rule exI [of _ "fst ?res"], rule exI [of _ "snd ?res"], simp)
  qed
qed

theorem finalize_log_then_callback_witness:
  "HalMessage_init 42
     \<lparr>kw_m_type = Some ''start'', kw_source = Some (PyObject (Some ''hal'')),
      kw_data = None, kw_sync = None, kw_level = None, kw_finalizer = Some (Some (5::nat))\<rparr>
     [] =
   Inr (\<lparr>ident = 42, m_type = ''start'', source = PyObject (Some ''hal''),
          data = (None :: nat option), finalizer = Some 5, level = 1,
          m_errors = ([] :: nat list), responses = ([] :: nat list),
          sync = False, ref_count = 0\<rparr>,
        [LogText ''created,42,hal,start''])
   \<and> finalize quiet_finalizers
       \<lparr>ident = 42, m_type = ''start'', source = PyObject (Some ''hal''),
          data = (None :: nat option), finalizer = Some (5::nat), level = 1,
          m_errors = [1 :: nat], responses = [2 :: nat],
          sync = False, ref_count = 0\<rparr>
       [LogText ''created,42,hal,start''] =
     (None,
      \<lparr>ident = 42, m_type = ''start'', source = PyObject (Some ''hal''),
          data = None, finalizer = Some 5, level = 1,
          m_errors = [1], responses = [2],
          sync = False, ref_count = 0\<rparr>,
      [LogText ''created,42,hal,start'', LogText ''destroyed,42,hal,start'', Invoke 5 0])"
proof -
  let ?kwds = "\<lparr>kw_m_type = Some ''start'', kw_source = Some (PyObject (Some ''hal'')),
      kw_data = (None :: nat option option), kw_sync = None, kw_level = None,
      kw_finalizer = Some (Some (5::nat))\<rparr>"
  let ?new = "\<lparr>ident = 42, m_type = ''start'', source = PyObject (Some ''hal''),
          data = (None :: nat option), finalizer = Some (5::nat), level = 1,
          m_errors = ([] :: nat list), responses = ([] :: nat list),
          sync = False, ref_count = 0\<rparr>"
  let ?msg = "\<lparr>ident = 42, m_type = ''start'', source = PyObject (Some ''hal''),
          data = (None :: nat option), finalizer = Some (5::nat), level = 1,
          m_errors = [1 :: nat], responses = [2 :: nat],
          sync = False, ref_count = 0\<rparr>"
  let ?trace = "[LogText ''created,42,hal,start''] :: nat world"
  have built: "HalMessage_init 42 ?kwds [] = Inr (?new, ?trace)"
    by (simp add: HalMessage_init_def HalMessageBase_init_def arg_or_def logEvent_def
          hdebug_logText_def str_nat_42)
  have later: "?msg = mutate_all ?new [AddError 1, AddResponse 2]"
    by (simp add: mutate_all_def addError_def addResponse_def)
  obtain log_part call_part outcome m' where
    fin: "finalize quiet_finalizers ?msg ?trace = (outcome, m', ?trace @ log_part @ call_part)"
    and lg: "if level ?msg = 1
             then \<exists>n. source ?msg = PyObject (Some n)
                    \<and> log_part = [LogText (''destroyed,'' @ str_nat (ident ?msg) @ '','' @ n
                                             @ '','' @ m_type ?msg)]
             else log_part = []"
    and cl: "case kw_finalizer ?kwds of
               Some (Some f) \<Rightarrow>
                 call_part = [Invoke f 0] \<and> (outcome, m') = quiet_finalizers f ?msg
             | _ \<Rightarrow> call_part = [] \<and> outcome = None \<and> m' = ?msg"
    using finalize_log_then_callback [OF built later, of quiet_finalizers ?trace]
    by blast
  have "log_part = [LogText ''destroyed,42,hal,start'']"
    using lg by (simp add: str_nat_42)
  moreover have "call_part = [Invoke 5 0]" and "outcome = None" and "m' = ?msg"
    using cl by (simp_all add: quiet_finalizers_def)
  ultimately show ?thesis using built fin by simp
qed

text \<open>
  C10, as the code has it. \<^verbatim>\<open>finalize\<close> assigns no field of the message itself: the
  message after the call is the message as the body of the stored finalizer leaves it,
  and the message as it was when there is no finalizer. So when no finalizer is stored,
  or the body of the finalizer leaves the message alone, the type, the source, the data,
  the level, the synchronous flag, the errors, the responses, the reference count, the
  stored finalizer and the identity are after the call what they were before. What
  \<^verbatim>\<open>finalize\<close> adds to the trace are log lines and calls of the stored finalizer.
\<close>

theorem finalize_frame:
  assumes built: "HalMessage_init oid kwds w0 = Inr (m0, w1)"
    and later: "m = mutate_all m0 cs"
  shows "\<exists>outcome m' w'.
           finalize code m w = (outcome, m', w')
         \<and> (case finalizer m of
              None \<Rightarrow> outcome = None \<and> m' = m
            | Some f \<Rightarrow> (outcome, m') = code f m)
         \<and> (finalizer m = None \<or> (\<exists>f. finalizer m = Some f \<and> snd (code f m) = m) \<longrightarrow>
              m_type m' = m_type m \<and> source m' = source m \<and> data m' = data m
            \<and> level m' = level m \<and> sync m' = sync m
            \<and> m_errors m' = m_errors m \<and> responses m' = responses m
            \<and> ref_count m' = ref_count m \<and> finalizer m' = finalizer m
            \<and> ident m' = ident m \<and> m' = m)
         \<and> (\<exists>es. w' = w @ es
               \<and> (\<forall>e \<in> set es. (\<exists>t. e = LogText t)
                                \<or> (\<exists>f. finalizer m = Some f \<and> e = Invoke f 0)))"
proof -
  let ?call = "case finalizer m of None \<Rightarrow> [] | Some f \<Rightarrow> [Invoke f 0]"
  let ?res = "case finalizer m of None \<Rightarrow> (None, m) | Some f \<Rightarrow> code f m"
  have same: "level m = level m0" "source m = source m0"
    using mutate_all_keeps [of m0 cs] later by simp_all
  have call: "\<forall>e \<in> set ?call. \<exists>f. finalizer m = Some f \<and> e = Invoke f 0"
    by (auto split: option.split)
  have res: "case finalizer m of
               None \<Rightarrow> fst ?res = None \<and> snd ?res = m
             | Some f \<Rightarrow> (fst ?res, snd ?res) = code f m"
    by (simp split: option.split)
  have kept: "snd ?res = m"
    if "finalizer m = None \<or> (\<exists>f. finalizer m = Some f \<and> snd (code f m) = m)"
    using that by (auto split: option.split)
  have trace: "\<exists>es. finalize code m w = (fst ?res, snd ?res, w @ es)
        \<and> (\<forall>e \<in> set es. (\<exists>t. e = LogText t)
                       \<or> (\<exists>f. finalizer m = Some f \<and> e = Invoke f 0))"
  proof (cases "level m = 1")
    case True
    then obtain n where n: "source m = PyObject (Some n)"
      using built_named [OF built] same by auto
    let ?log = "[LogText (''destroyed,'' @ str_nat (ident m) @ '','' @ n @ '','' @ m_type m)]"
    have "finalize code m w = (fst ?res, snd ?res, w @ (?log @ ?call))"
      using finalize_named [OF n True, of code w] by simp
    moreover have "\<forall>e \<in> set (?log @ ?call). (\<exists>t. e = LogText t)
                       \<or> (\<exists>f. finalizer m = Some f \<and> e = Invoke f 0)"
      using call by auto
    ultimately show ?thesis by blast
  next
    case False
    have "finalize code m w = (fst ?res, snd ?res, w @ ?call)"
      using finalize_quiet [OF False, of code w] by simp
    then show ?thesis using call by blast
  qed
  then obtain es where
    fin: "finalize code m w = (fst ?res, snd ?res, w @ es)"
    and es: "\<forall>e \<in> set es. (\<exists>t. e = LogText t)
                       \<or> (\<exists>f. finalizer m = Some f \<and> e = Invoke f 0)"
    by blast
  show ?thesis
  proof (intro exI conjI impI)
    show "finalize code m w = (fst ?res, snd ?res, w @ es)" by (rule fin)
    show "case finalizer m of
            None \<Rightarrow> fst ?res = None \<and> snd ?res = m
          | Some f \<Rightarrow> (fst ?res, snd ?res) = code f m"
      by (rule res)
    show "w @ es = w @ es" by (rule refl)
    show "\<forall>e \<in> set es. (\<exists>t. e = LogText t)
                       \<or> (\<exists>f. finalizer m = Some f \<and> e = Invoke f 0)"
      by (rule es)
  next
    assume alone: "finalizer m = None \<or> (\<exists>f. finalizer m = Some f \<and> snd (code f m) = m)"
    have eq: "snd ?res = m" using alone by (rule kept)
    show "m_type (snd ?res) = m_type m" "source (snd ?res) = source m"
      "data (snd ?res) = data m" "level (snd ?res) = level m" "sync (snd ?res) = sync m"
      "m_errors (snd ?res) = m_errors m" "responses (snd ?res) = responses m"
      "ref_count (snd ?res) = ref_count m" "finalizer (snd ?res) = finalizer m"
      "ident (snd ?res) = ident m" "snd ?res = m"
      unfolding eq by simp_all
  qed
qed

theorem finalize_frame_witness:
  "HalMessage_init 42
     \<lparr>kw_m_type = Some ''start'', kw_source = Some (PyObject (Some ''hal'')),
      kw_data = None, kw_sync = None, kw_level = None, kw_finalizer = Some (Some (5::nat))\<rparr>
     [] =
   Inr (\<lparr>ident = 42, m_type = ''start'', source = PyObject (Some ''hal''),
          data = (None :: nat option), finalizer = Some 5, level = 1,
          m_errors = ([] :: nat list), responses = ([] :: nat list),
          sync = False, ref_count = 0\<rparr>,
        [LogText ''created,42,hal,start''])
   \<and> snd (quiet_finalizers (5::nat)
       \<lparr>ident = 42, m_type = ''start'', source = PyObject (Some ''hal''),
          data = (None :: nat option), finalizer = Some (5::nat), level = 1,
          m_errors = [1 :: nat], responses = [2 :: nat],
          sync = False, ref_count = 0\<rparr>) =
       \<lparr>ident = 42, m_type = ''start'', source = PyObject (Some ''hal''),
          data = None, finalizer = Some 5, level = 1,
          m_errors = [1], responses = [2],
          sync = False, ref_count = 0\<rparr>
   \<and> (\<exists>outcome w'. finalize quiet_finalizers
       \<lparr>ident = 42, m_type = ''start'', source = PyObject (Some ''hal''),
          data = (None :: nat option), finalizer = Some (5::nat), level = 1,
          m_errors = [1 :: nat], responses = [2 :: nat],
          sync = False, ref_count = 0\<rparr>
       [] =
     (outcome,
      \<lparr>ident = 42, m_type = ''start'', source = PyObject (Some ''hal''),
          data = None, finalizer = Some 5, level = 1,
          m_errors = [1], responses = [2],
          sync = False, ref_count = 0\<rparr>, w'))"
proof -
  let ?kwds = "\<lparr>kw_m_type = Some ''start'', kw_source = Some (PyObject (Some ''hal'')),
      kw_data = (None :: nat option option), kw_sync = None, kw_level = None,
      kw_finalizer = Some (Some (5::nat))\<rparr>"
  let ?new = "\<lparr>ident = 42, m_type = ''start'', source = PyObject (Some ''hal''),
          data = (None :: nat option), finalizer = Some (5::nat), level = 1,
          m_errors = ([] :: nat list), responses = ([] :: nat list),
          sync = False, ref_count = 0\<rparr>"
  let ?msg = "\<lparr>ident = 42, m_type = ''start'', source = PyObject (Some ''hal''),
          data = (None :: nat option), finalizer = Some (5::nat), level = 1,
          m_errors = [1 :: nat], responses = [2 :: nat],
          sync = False, ref_count = 0\<rparr>"
  have built: "HalMessage_init 42 ?kwds [] = Inr (?new, [LogText ''created,42,hal,start''])"
    by (simp add: HalMessage_init_def HalMessageBase_init_def arg_or_def logEvent_def
          hdebug_logText_def str_nat_42)
  have later: "?msg = mutate_all ?new [AddError 1, AddResponse 2]"
    by (simp add: mutate_all_def addError_def addResponse_def)
  have quiet: "snd (quiet_finalizers (5::nat) ?msg) = ?msg"
    by (simp add: quiet_finalizers_def)
  have alone: "finalizer ?msg = None
      \<or> (\<exists>f. finalizer ?msg = Some f \<and> snd (quiet_finalizers f ?msg) = ?msg)"
    using quiet by simp
  obtain outcome m' w' where
    fin: "finalize quiet_finalizers ?msg [] = (outcome, m', w')"
    and frame: "finalizer ?msg = None
        \<or> (\<exists>f. finalizer ?msg = Some f \<and> snd (quiet_finalizers f ?msg) = ?msg)
        \<longrightarrow> m' = ?msg"
    using finalize_frame [OF built later, of quiet_finalizers "[]"] by blast
  have "m' = ?msg" using frame alone by blast
  then have "\<exists>outcome w'. finalize quiet_finalizers ?msg [] = (outcome, ?msg, w')"
    using fin by blast
  then show ?thesis using built quiet by blast
qed

text \<open>
  The claim as written has the errors after \<^verbatim>\<open>finalize\<close> as they were before. A message
  is built with a finalizer whose body is \<^verbatim>\<open>m.addError(9)\<close> on that message: its errors
  are empty before \<^verbatim>\<open>finalize\<close> and hold 9 after it.
\<close>

theorem finalize_changes_errors:
  "HalMessage_init 42
     \<lparr>kw_m_type = Some ''start'', kw_source = Some (PyObject (Some ''hal'')),
      kw_data = None, kw_sync = None, kw_level = None, kw_finalizer = Some (Some (5::nat))\<rparr>
     [] =
   Inr (\<lparr>ident = 42, m_type = ''start'', source = PyObject (Some ''hal''),
          data = (None :: nat option), finalizer = Some 5, level = 1,
          m_errors = ([] :: nat list), responses = ([] :: nat list),
          sync = False, ref_count = 0\<rparr>,
        [LogText ''created,42,hal,start''])
   \<and> finalize (error_adding_finalizers 9)
       \<lparr>ident = 42, m_type = ''start'', source = PyObject (Some ''hal''),
          data = (None :: nat option), finalizer = Some (5::nat), level = 1,
          m_errors = ([] :: nat list), responses = ([] :: nat list),
          sync = False, ref_count = 0\<rparr>
       [LogText ''created,42,hal,start''] =
     (None,
      \<lparr>ident = 42, m_type = ''start'', source = PyObject (Some ''hal''),
          data = None, finalizer = Some 5, level = 1,
          m_errors = [9], responses = [],
          sync = False, ref_count = 0\<rparr>,
      [LogText ''created,42,hal,start'', LogText ''destroyed,42,hal,start'', Invoke 5 0])"
  by (simp add: HalMessage_init_def HalMessageBase_init_def arg_or_def logEvent_def
        hdebug_logText_def str_nat_42 finalize_def invoke_def error_adding_finalizers_def
        addError_def)

section \<open>Properties of errors\<close>

text \<open>
  C6. An error built with an exception object has an exception, and one built without
  (the argument left out, or \<^verbatim>\<open>None\<close> passed) has none; \<^verbatim>\<open>getException\<close> returns what
  was passed, \<^verbatim>\<open>None\<close> when nothing was. In general \<^verbatim>\<open>hasException\<close> holds exactly when
  \<^verbatim>\<open>getException\<close> returns an exception object.
\<close>

theorem HalMessageError_exception:
  "hasException (HalMessageError_init a_source a_message (Some (Some x)))
   \<and> \<not> hasException (HalMessageError_init a_source a_message None)
   \<and> \<not> hasException (HalMessageError_init a_source a_message (Some None))
   \<and> getException (HalMessageError_init a_source a_message (Some (Some x))) = Some x
   \<and> getException (HalMessageError_init a_source a_message None) = None
   \<and> getException (HalMessageError_init a_source a_message (Some None)) = None
   \<and> hasException e = (\<exists>y. getException e = Some y)"
  by (auto simp: hasException_def getException_def HalMessageError_init_def arg_or_def)

section \<open>Properties of the collectors\<close>

text \<open>
  C7. \<^verbatim>\<open>addError\<close> puts its argument at the end of the errors and \<^verbatim>\<open>addResponse\<close> puts
  its argument at the end of the responses, whatever the argument is: the entries that
  were there stay, in their order, and nothing else in the message changes.
  \<^verbatim>\<open>hasErrors\<close> holds exactly when the errors are not empty and \<^verbatim>\<open>hasResponses\<close> exactly
  when the responses are not empty.
\<close>

theorem append_only_collectors:
  "getErrors (addError e m) = getErrors m @ [e]
   \<and> getResponses (addResponse r m) = getResponses m @ [r]
   \<and> addError e m = m\<lparr>m_errors := getErrors m @ [e]\<rparr>
   \<and> addResponse r m = m\<lparr>responses := getResponses m @ [r]\<rparr>
   \<and> getResponses (addError e m) = getResponses m
   \<and> getErrors (addResponse r m) = getErrors m
   \<and> hasErrors m = (getErrors m \<noteq> [])
   \<and> hasResponses m = (getResponses m \<noteq> [])
   \<and> hasErrors (addError e m)
   \<and> hasResponses (addResponse r m)"
  by (simp add: getErrors_def getResponses_def addError_def addResponse_def
        hasErrors_def hasResponses_def)

end
